theory Spec2Isabelle
  imports Complex_Main
begin

section \<open>Page export pipeline of \<open>pdf_to_images.py\<close>\<close>

text \<open>
  A shallow embedding of \<^verbatim>\<open>src/pdf_to_images.py\<close>. Python's unbounded integers are
  \<open>int\<close>, \<open>Optional[T]\<close> is \<open>T option\<close>, a raised exception is the \<open>Inl\<close> branch of a
  sum. The private helpers of the module start with an underscore, which an Isabelle name
  cannot: \<^verbatim>\<open>_validate_range\<close> is \<open>validate_range\<close> here, and likewise for the others.
\<close>

subsection \<open>Exceptions\<close>

text \<open>
  One constructor per \<^verbatim>\<open>raise\<close> of the module, carrying what its message interpolates,
  and one per failure of a library call that the module lets propagate.
  \<open>error_class\<close> gives the Python exception class.
\<close>

datatype error =
    UnsupportedFormat string
  | DpiNotPositive
  | QualityOutOfRange
  | InvalidRange "int option" "int option" int
  | PdfNotFound
  | EncryptedNoPassword
  | IncorrectPassword
  | EmptyName
  | MkdirFileExists
  | MkdirNotADirectory
  | MkdirNoParent
  | CannotOpenDocument
  | PageNotInDocument
  | TemplateError
  | ResizeBadSize
  | AspectDivisionByZero
  | SaveIsADirectory
  | SaveParentNotADirectory
  | SaveNoParent
  | NoConversion
  | FloatOverflow

datatype exn_class =
    ValueError | FileNotFoundError | PermissionError | FileExistsError
  | NotADirectoryError | IsADirectoryError | IndexError | ZeroDivisionError
  | OverflowError | LibraryError

fun error_class :: "error \<Rightarrow> exn_class" where
  "error_class (UnsupportedFormat _) = ValueError"
| "error_class DpiNotPositive = ValueError"
| "error_class QualityOutOfRange = ValueError"
| "error_class (InvalidRange _ _ _) = ValueError"
| "error_class PdfNotFound = FileNotFoundError"
| "error_class EncryptedNoPassword = PermissionError"
| "error_class IncorrectPassword = PermissionError"
| "error_class EmptyName = ValueError"
| "error_class MkdirFileExists = FileExistsError"
| "error_class MkdirNotADirectory = NotADirectoryError"
| "error_class MkdirNoParent = FileNotFoundError"
| "error_class CannotOpenDocument = LibraryError"
| "error_class PageNotInDocument = IndexError"
| "error_class TemplateError = LibraryError"
| "error_class ResizeBadSize = ValueError"
| "error_class AspectDivisionByZero = ZeroDivisionError"
| "error_class SaveIsADirectory = IsADirectoryError"
| "error_class SaveParentNotADirectory = NotADirectoryError"
| "error_class SaveNoParent = FileNotFoundError"
| "error_class NoConversion = ValueError"
| "error_class FloatOverflow = OverflowError"

subsection \<open>Range resolver\<close>

text \<open>
  Python's truth value of an \<^verbatim>\<open>Optional[int]\<close>: \<^verbatim>\<open>None\<close> and \<^verbatim>\<open>0\<close> are false.
\<close>

fun truthy_int :: "int option \<Rightarrow> bool" where
  "truthy_int None = False"
| "truthy_int (Some v) = (v \<noteq> 0)"

text \<open>
  \<^verbatim>\<open>
  def _validate_range(start, end, n_pages):
      first = 0 if not start else max(0, start - 1)
      last = n_pages - 1 if not end else min(n_pages - 1, end - 1)
      if first > last:
          raise ValueError(f"Invalid range: start={start}, end={end} for {n_pages} pages.")
      return first, last
  \<close>
\<close>

definition validate_range :: "int option \<Rightarrow> int option \<Rightarrow> int \<Rightarrow> error + (int \<times> int)" where
  "validate_range start end n_pages =
     (let first = (case start of None \<Rightarrow> 0
                   | Some s \<Rightarrow> if \<not> truthy_int (Some s) then 0 else max 0 (s - 1));
          last = (case end of None \<Rightarrow> n_pages - 1
                  | Some e \<Rightarrow> if \<not> truthy_int (Some e) then n_pages - 1
                             else min (n_pages - 1) (e - 1))
      in if first > last then Inl (InvalidRange start end n_pages)
         else Inr (first, last))"

text \<open>
  The range resolver as the specification words it (section 4.1): only an absent bound
  takes the default, a present one is always clamped.
\<close>

definition spec_first :: "int option \<Rightarrow> int" where
  "spec_first start = (case start of None \<Rightarrow> 0 | Some s \<Rightarrow> max 0 (s - 1))"

definition spec_last :: "int option \<Rightarrow> int \<Rightarrow> int" where
  "spec_last end n_pages =
     (case end of None \<Rightarrow> n_pages - 1 | Some e \<Rightarrow> min (n_pages - 1) (e - 1))"

definition spec_resolve_range :: "int option \<Rightarrow> int option \<Rightarrow> int \<Rightarrow> error + (int \<times> int)" where
  "spec_resolve_range start end n_pages =
     (if spec_first start > spec_last end n_pages
      then Inl (InvalidRange start end n_pages)
      else Inr (spec_first start, spec_last end n_pages))"

text \<open>What the code computes for the upper bound: \<^verbatim>\<open>end = 0\<close> counts as absent.\<close>

definition code_last :: "int option \<Rightarrow> int \<Rightarrow> int" where
  "code_last end n_pages =
     (case end of None \<Rightarrow> n_pages - 1
      | Some e \<Rightarrow> if e = 0 then n_pages - 1 else min (n_pages - 1) (e - 1))"

subsection \<open>Images\<close>

text \<open>
  The image codec library (Pillow) is an external collaborator. An image is modelled by
  what the module reads of it, its \<^verbatim>\<open>mode\<close> and its size, and by a pixel content that
  records which library operations built it, without interpreting them: the arithmetic of
  compositing, of colour conversion and of resampling stays inside the library.
\<close>

datatype pixels =
    Samples "nat list"
  | Solid "nat list"
  | Composite pixels pixels
  | Converted string pixels
  | Resampled int int pixels

record image =
  mode :: string
  width :: nat
  height :: nat
  pixels :: pixels

text \<open>\<^verbatim>\<open>Image.frombytes(mode, (w, h), samples)\<close>\<close>

definition frombytes :: "string \<Rightarrow> nat \<times> nat \<Rightarrow> nat list \<Rightarrow> image" where
  "frombytes m sz samples =
     \<lparr>mode = m, width = fst sz, height = snd sz, pixels = Samples samples\<rparr>"

text \<open>\<^verbatim>\<open>Image.new(mode, size, color)\<close>\<close>

definition image_new :: "string \<Rightarrow> nat \<times> nat \<Rightarrow> nat list \<Rightarrow> image" where
  "image_new m sz color =
     \<lparr>mode = m, width = fst sz, height = snd sz, pixels = Solid color\<rparr>"

text \<open>
  \<^verbatim>\<open>Image.alpha_composite(im1, im2)\<close>: \<^verbatim>\<open>im2\<close> over \<^verbatim>\<open>im1\<close>, an \<^verbatim>\<open>RGBA\<close> image of the
  size of \<^verbatim>\<open>im1\<close>. The module calls it on two \<^verbatim>\<open>RGBA\<close> images of one size only, where
  the library does not raise.
\<close>

definition alpha_composite :: "image \<Rightarrow> image \<Rightarrow> image" where
  "alpha_composite im1 im2 =
     \<lparr>mode = ''RGBA'', width = width im1, height = height im1,
      pixels = Composite (pixels im1) (pixels im2)\<rparr>"

text \<open>
  \<^verbatim>\<open>img.convert(mode)\<close>. A conversion to the mode the image has returns a copy. Otherwise
  Pillow looks the pair of modes up in its converter table and raises \<^verbatim>\<open>ValueError\<close>
  when it finds no conversion. Of that table the entries the module relies on are written
  out: \<open>RGBA\<close> to \<open>RGB\<close>, \<open>RGBA\<close> to \<open>L\<close> and \<open>RGB\<close> to \<open>L\<close> exist, the premultiplied mode
  \<open>La\<close> has no conversion to \<open>RGB\<close>. Every other entry is the parameter \<open>other\<close>.
\<close>

definition has_conversion :: "(string \<Rightarrow> string \<Rightarrow> bool) \<Rightarrow> string \<Rightarrow> string \<Rightarrow> bool" where
  "has_conversion other src dst =
     (if (src, dst) \<in> {(''RGBA'', ''RGB''), (''RGBA'', ''L''), (''RGB'', ''L'')} then True
      else if (src, dst) = (''La'', ''RGB'') then False
      else other src dst)"

definition convert :: "(string \<Rightarrow> string \<Rightarrow> bool) \<Rightarrow> image \<Rightarrow> string \<Rightarrow> error + image" where
  "convert other img m =
     (if m = mode img then Inr img
      else if has_conversion other (mode img) m
        then Inr (img\<lparr>mode := m, pixels := Converted m (pixels img)\<rparr>)
      else Inl NoConversion)"

subsection \<open>Python floats\<close>

text \<open>
  A Python float is an IEEE 754 double: a rational with a significand of 53 bits. Every
  arithmetic operation returns the exact result rounded to the nearest double, a tie to
  the one with the even significand. \<open>fl\<close> is that rounding: \<open>scale x\<close> is the power of
  two that brings \<open>x\<close> into the range from \<open>2 ^ 52\<close> up to \<open>2 ^ 53\<close>, where the doubles are
  the integers. A result of magnitude \<open>2 ^ 1024\<close> or more is an \<^verbatim>\<open>OverflowError\<close>, either of
  the operation or of the \<^verbatim>\<open>math.floor\<close> that follows it. Results below \<open>2 ^ -1022\<close>, where
  doubles lose precision, are not modelled: no quotient of the sizes of an image that
  Pillow can hold comes near them.
\<close>

function bit_length :: "nat \<Rightarrow> nat" where
  "bit_length n = (if n = 0 then 0 else Suc (bit_length (n div 2)))"
  by pat_completeness auto
termination
  by (relation "measure id") auto

declare bit_length.simps [simp del]

definition rne :: "rat \<Rightarrow> int" where
  "rne z =
     (let f = \<lfloor>z\<rfloor>; d = z - of_int f
      in if d < 1 / 2 then f
         else if 1 / 2 < d then f + 1
         else if even f then f else f + 1)"

definition scale :: "rat \<Rightarrow> rat" where
  "scale x =
     (if 1 \<le> x then 2 ^ 53 / 2 ^ bit_length (nat \<lfloor>x\<rfloor>)
      else 2 ^ 52 * 2 ^ bit_length (nat (\<lceil>1 / x\<rceil> - 1)))"

definition fl :: "rat \<Rightarrow> rat" where
  "fl x = (if x = 0 then 0 else of_int (rne (x * scale \<bar>x\<bar>)) / scale \<bar>x\<bar>)"

definition finite_float :: "rat \<Rightarrow> error + rat" where
  "finite_float v = (if 2 ^ 1024 \<le> \<bar>v\<bar> then Inl FloatOverflow else Inr v)"

text \<open>\<^verbatim>\<open>a / b\<close> on two integers, and \<^verbatim>\<open>float(k)\<close>, the conversion in a mixed operation.\<close>

definition int_truediv :: "int \<Rightarrow> int \<Rightarrow> error + rat" where
  "int_truediv a b =
     (if b = 0 then Inl AspectDivisionByZero else finite_float (fl (of_int a / of_int b)))"

definition to_float :: "int \<Rightarrow> error + rat" where
  "to_float k = finite_float (fl (of_int k))"

subsection \<open>Thumbnails\<close>

text \<open>
  \<^verbatim>\<open>img.thumbnail(size, resample)\<close> of Pillow, which the module calls with the box
  \<^verbatim>\<open>(max_dim, max_dim)\<close>:
  \<^verbatim>\<open>
  def round_aspect(number, key):
      return max(min(math.floor(number), math.ceil(number), key=key), 1)
  x, y = size
  if x >= self.width and y >= self.height: return
  aspect = self.width / self.height
  if x / y >= aspect:
      x = round_aspect(y * aspect, key=lambda n: abs(aspect - n / y))
  else:
      y = round_aspect(x / aspect, key=lambda n: 0 if n == 0 else abs(aspect - x / n))
  if self.size != (x, y): resize to (x, y)
  \<close>
  Every quotient, product and difference is a float operation. \<^verbatim>\<open>min\<close> keeps its first
  argument unless the key of the second is smaller. A division by zero raises, and so
  does a resize to a size that is not positive.
\<close>

definition round_aspect :: "rat \<Rightarrow> (int \<Rightarrow> rat) \<Rightarrow> int" where
  "round_aspect number key =
     max (if key \<lfloor>number\<rfloor> \<le> key \<lceil>number\<rceil> then \<lfloor>number\<rfloor> else \<lceil>number\<rceil>) 1"

definition resize :: "image \<Rightarrow> int \<times> int \<Rightarrow> error + image" where
  "resize img sz =
     (if fst sz \<le> 0 \<or> snd sz \<le> 0 then Inl ResizeBadSize
      else Inr (img\<lparr>width := nat (fst sz), height := nat (snd sz),
                     pixels := Resampled (fst sz) (snd sz) (pixels img)\<rparr>))"

definition thumbnail :: "image \<Rightarrow> int \<times> int \<Rightarrow> error + image" where
  "thumbnail img box =
     (let x = fst box; y = snd box; w = int (width img); h = int (height img)
      in if x \<ge> w \<and> y \<ge> h then Inr img
         else
           (case int_truediv w h of
              Inl e \<Rightarrow> Inl e
            | Inr aspect \<Rightarrow>
                (case int_truediv x y of
                   Inl e \<Rightarrow> Inl e
                 | Inr ratio \<Rightarrow>
                     if ratio \<ge> aspect then
                       (case to_float y of
                          Inl e \<Rightarrow> Inl e
                        | Inr fy \<Rightarrow>
                            (case finite_float (fl (fy * aspect)) of
                               Inl e \<Rightarrow> Inl e
                             | Inr number \<Rightarrow>
                                 let x' = round_aspect number
                                            (\<lambda>n. \<bar>fl (aspect - fl (of_int n / of_int y))\<bar>)
                                 in if (w, h) \<noteq> (x', y) then resize img (x', y) else Inr img))
                     else
                       (case to_float x of
                          Inl e \<Rightarrow> Inl e
                        | Inr fx \<Rightarrow>
                            if aspect = 0 then Inl AspectDivisionByZero
                            else
                              (case finite_float (fl (fx / aspect)) of
                                 Inl e \<Rightarrow> Inl e
                               | Inr number \<Rightarrow>
                                   let y' = round_aspect number
                                              (\<lambda>n. if n = 0 then 0
                                                   else \<bar>fl (aspect - fl (of_int x / of_int n))\<bar>)
                                   in if (w, h) \<noteq> (x, y') then resize img (x, y')
                                      else Inr img)))))"

subsection \<open>Image transform chain\<close>

text \<open>
  \<^verbatim>\<open>
  def _flatten_to_rgb(img):
      if img.mode == "RGBA":
          bg = Image.new("RGBA", img.size, (255, 255, 255, 255))
          img = Image.alpha_composite(bg, img).convert("RGB")
      elif img.mode != "RGB":
          img = img.convert("RGB")
      return img
  \<close>
  The first argument of the helpers is the parameter of \<open>convert\<close>.
\<close>

definition flatten_to_rgb :: "(string \<Rightarrow> string \<Rightarrow> bool) \<Rightarrow> image \<Rightarrow> error + image" where
  "flatten_to_rgb other img =
     (if mode img = ''RGBA'' then
        (let bg = image_new ''RGBA'' (width img, height img) [255, 255, 255, 255]
         in convert other (alpha_composite bg img) ''RGB'')
      else if mode img \<noteq> ''RGB'' then convert other img ''RGB''
      else Inr img)"

text \<open>
  \<^verbatim>\<open>
  def _maybe_grayscale(img, grayscale):
      return img.convert("L") if grayscale else img
  \<close>
\<close>

definition maybe_grayscale :: "(string \<Rightarrow> string \<Rightarrow> bool) \<Rightarrow> image \<Rightarrow> bool \<Rightarrow> error + image" where
  "maybe_grayscale other img grayscale =
     (if grayscale then convert other img ''L'' else Inr img)"

text \<open>
  \<^verbatim>\<open>
  def _maybe_downscale(img, max_dim):
      if max_dim and max(img.size) > max_dim:
          img.thumbnail((max_dim, max_dim), Image.Resampling.LANCZOS)  # in-place
      return img
  \<close>
  The in-place update of the one reference to the image is the returned value.
\<close>

definition maybe_downscale :: "image \<Rightarrow> int option \<Rightarrow> error + image" where
  "maybe_downscale img max_dim =
     (case max_dim of
        None \<Rightarrow> Inr img
      | Some m \<Rightarrow>
          if truthy_int (Some m) \<and> max (int (width img)) (int (height img)) > m
          then thumbnail img (m, m)
          else Inr img)"

text \<open>
  Lines 126 to 129 of \<^verbatim>\<open>pdf_to_images\<close>, the chain applied to each rasterized page:
  \<^verbatim>\<open>
  if fmt in {"jpg", "webp"}:
      img = _flatten_to_rgb(img)
  img = _maybe_grayscale(img, grayscale)
  img = _maybe_downscale(img, max_dim)
  \<close>
\<close>

definition transform_chain ::
  "(string \<Rightarrow> string \<Rightarrow> bool) \<Rightarrow> string \<Rightarrow> bool \<Rightarrow> int option \<Rightarrow> image \<Rightarrow> error + image" where
  "transform_chain other fmt grayscale max_dim img =
     (case (if fmt \<in> {''jpg'', ''webp''} then flatten_to_rgb other img else Inr img) of
        Inl e \<Rightarrow> Inl e
      | Inr img1 \<Rightarrow>
          (case maybe_grayscale other img1 grayscale of
             Inl e \<Rightarrow> Inl e
           | Inr img2 \<Rightarrow> maybe_downscale img2 max_dim))"

subsection \<open>Paths, files and documents\<close>

text \<open>
  A path is the tuple of its components (\<^verbatim>\<open>Path.parts\<close>); its parent drops the last one.
  The file system maps a path to a directory or to a file with its content. A PDF file
  holds the document the rendering engine (PyMuPDF) reads from it; a file written by
  \<^verbatim>\<open>img.save\<close> holds the image, the format name and the keyword arguments of the call.
\<close>

type_synonym path = "string list"

record pixmap =
  pix_alpha :: bool
  pix_width :: nat
  pix_height :: nat
  samples :: "nat list"

text \<open>
  A page is what \<^verbatim>\<open>page.get_pixmap(matrix=fitz.Matrix(zoom, zoom), alpha=True)\<close> returns
  for each \<open>zoom\<close>.
\<close>

type_synonym page = "rat \<Rightarrow> pixmap"

record document =
  needs_pass :: bool
  authenticate :: "string \<Rightarrow> bool"
  pages :: "page list"

datatype save_option = Quality int | Optimize bool | Progressive bool | Method int

datatype content =
    Pdf document
  | Encoded "string option" image "save_option list"
  | Data "nat list"

datatype entry = File content | Dir

text \<open>
  The calls that reach outside the process, in the order they happened: the trace makes
  "before the document is opened" and "before any rasterization" statements about a run.
\<close>

datatype event =
    MadeDir path
  | Opened path
  | Authenticate string
  | Rasterized int
  | Saved path
  | Closed path

record world =
  fs :: "path \<rightharpoonup> entry"
  trace :: "event list"

definition is_file :: "(path \<rightharpoonup> entry) \<Rightarrow> path \<Rightarrow> bool" where
  "is_file f p = (case f p of Some (File _) \<Rightarrow> True | _ \<Rightarrow> False)"

definition exists_path :: "(path \<rightharpoonup> entry) \<Rightarrow> path \<Rightarrow> bool" where
  "exists_path f p = (f p \<noteq> None)"

text \<open>
  \<^verbatim>\<open>out.mkdir(parents=True, exist_ok=True)\<close> of pathlib: an existing directory is left
  alone, an existing file raises \<^verbatim>\<open>FileExistsError\<close>, a missing parent is created first
  and a parent that is a file raises \<^verbatim>\<open>NotADirectoryError\<close>.
\<close>

function mkdir :: "(path \<rightharpoonup> entry) \<Rightarrow> path \<Rightarrow> error + (path \<rightharpoonup> entry)" where
  "mkdir f p =
     (case f p of
        Some Dir \<Rightarrow> Inr f
      | Some (File _) \<Rightarrow> Inl MkdirFileExists
      | None \<Rightarrow>
          if p = [] then Inl MkdirNoParent
          else (case f (butlast p) of
                  Some Dir \<Rightarrow> Inr (f(p \<mapsto> Dir))
                | Some (File _) \<Rightarrow> Inl MkdirNotADirectory
                | None \<Rightarrow>
                    (case mkdir f (butlast p) of
                       Inl e \<Rightarrow> Inl e
                     | Inr f' \<Rightarrow> Inr (f'(p \<mapsto> Dir)))))"
  by pat_completeness auto
termination
  by (relation "measure (\<lambda>(f, p). length p)") auto

declare mkdir.simps [simp del]

text \<open>
  What the module takes from the Python library without the claims depending on how it
  is computed: parsing a string into a path (\<^verbatim>\<open>Path(s)\<close>), \<^verbatim>\<open>Path.with_suffix\<close>,
  \<^verbatim>\<open>Path.stem\<close>, and \<^verbatim>\<open>template.format(stem=..., page=...)\<close>. The result \<open>None\<close> stands
  for the exception of the call: \<^verbatim>\<open>with_suffix\<close> raises on a path with an empty name,
  \<^verbatim>\<open>format\<close> on a template it cannot fill. \<open>other_conversions\<close> is the parameter of
  \<open>convert\<close>, the entries of Pillow's converter table that are not written out there.
\<close>

record externals =
  path_of_str :: "string \<Rightarrow> path"
  with_suffix :: "path \<Rightarrow> string \<Rightarrow> path option"
  stem :: "path \<Rightarrow> string"
  str_format :: "string \<Rightarrow> string \<Rightarrow> int \<Rightarrow> string option"
  other_conversions :: "string \<Rightarrow> string \<Rightarrow> bool"

text \<open>An argument of type \<^verbatim>\<open>Path | str\<close>, its truth value, and \<^verbatim>\<open>Path(x)\<close>.\<close>

datatype pathlike = PathObj path | Str string

fun truthy_pathlike :: "pathlike option \<Rightarrow> bool" where
  "truthy_pathlike None = False"
| "truthy_pathlike (Some (PathObj _)) = True"
| "truthy_pathlike (Some (Str s)) = (s \<noteq> [])"

fun as_path :: "externals \<Rightarrow> pathlike \<Rightarrow> path" where
  "as_path ext (PathObj p) = p"
| "as_path ext (Str s) = path_of_str ext s"

fun truthy_str :: "string option \<Rightarrow> bool" where
  "truthy_str None = False"
| "truthy_str (Some s) = (s \<noteq> [])"

text \<open>
  \<^verbatim>\<open>out_dir / name\<close>: the components of \<^verbatim>\<open>name\<close> appended, unless \<^verbatim>\<open>name\<close> parses to an
  absolute path, which then replaces \<^verbatim>\<open>out_dir\<close>.
\<close>

definition joinpath :: "externals \<Rightarrow> path \<Rightarrow> string \<Rightarrow> path" where
  "joinpath ext d name =
     (let q = path_of_str ext name
      in if q \<noteq> [] \<and> hd q = ''/'' then q else d @ q)"

text \<open>
  \<^verbatim>\<open>
  def _ensure_outdir(pdf_path, out_dir):
      out = Path(out_dir) if out_dir else pdf_path.with_suffix("")
      out.mkdir(parents=True, exist_ok=True)
      return out
  \<close>
  Here \<^verbatim>\<open>out_dir\<close> is a \<^verbatim>\<open>Path\<close> or \<^verbatim>\<open>None\<close>, and a \<^verbatim>\<open>Path\<close> is always true.
\<close>

definition resolve_outdir :: "externals \<Rightarrow> path \<Rightarrow> path option \<Rightarrow> error + path" where
  "resolve_outdir ext pdf out_dir =
     (case out_dir of
        Some d \<Rightarrow> Inr d
      | None \<Rightarrow> (case with_suffix ext pdf [] of None \<Rightarrow> Inl EmptyName | Some d \<Rightarrow> Inr d))"

definition ensure_outdir ::
  "externals \<Rightarrow> path \<Rightarrow> path option \<Rightarrow> world \<Rightarrow> (error + path) \<times> world" where
  "ensure_outdir ext pdf out_dir w =
     (case resolve_outdir ext pdf out_dir of
        Inl e \<Rightarrow> (Inl e, w)
      | Inr out \<Rightarrow>
          (case mkdir (fs w) out of
             Inl e \<Rightarrow> (Inl e, w)
           | Inr f' \<Rightarrow> (Inr out, w\<lparr>fs := f', trace := trace w @ [MadeDir out]\<rparr>)))"

text \<open>\<^verbatim>\<open>fitz.open(pdf_path)\<close>: the document of a PDF file; anything else cannot be opened.\<close>

definition fitz_open :: "path \<Rightarrow> world \<Rightarrow> (error + document) \<times> world" where
  "fitz_open p w =
     (case fs w p of
        Some (File (Pdf doc)) \<Rightarrow> (Inr doc, w\<lparr>trace := trace w @ [Opened p]\<rparr>)
      | _ \<Rightarrow> (Inl CannotOpenDocument, w))"

text \<open>
  \<^verbatim>\<open>doc[i]\<close> of PyMuPDF: an index in \<open>-n \<dots> n - 1\<close>, a negative one counted from the end.
\<close>

definition getitem :: "document \<Rightarrow> int \<Rightarrow> error + page" where
  "getitem doc i =
     (let n = int (length (pages doc))
      in if - n \<le> i \<and> i < n then Inr (pages doc ! nat (if i < 0 then i + n else i))
         else Inl PageNotInDocument)"

text \<open>
  \<^verbatim>\<open>img.save(out_file, format, **kwargs)\<close>: writes the file, replacing an existing one; the
  path must not be a directory and its parent must be one. The result is the exception
  raised, if any, and the world after the call.
\<close>

definition save ::
  "image \<Rightarrow> path \<Rightarrow> string option \<Rightarrow> save_option list \<Rightarrow> world \<Rightarrow> error option \<times> world" where
  "save img p format opts w =
     (case fs w p of
        Some Dir \<Rightarrow> (Some SaveIsADirectory, w)
      | _ \<Rightarrow>
          (case fs w (butlast p) of
             Some Dir \<Rightarrow>
               (None, w\<lparr>fs := (fs w)(p \<mapsto> File (Encoded format img opts)),
                        trace := trace w @ [Saved p]\<rparr>)
           | Some (File _) \<Rightarrow> (Some SaveParentNotADirectory, w)
           | None \<Rightarrow> (Some SaveNoParent, w)))"

text \<open>
  Lines 138 to 150, the encoder dispatch:
  \<^verbatim>\<open>
  if fmt == "jpg":
      save_kwargs = dict(quality=quality, optimize=True, progressive=True)
      img.save(out_file, "JPEG", **save_kwargs)
  elif fmt == "png":
      img.save(out_file, "PNG", optimize=True)
  elif fmt == "webp":
      save_kwargs = dict(quality=quality, method=6)
      img.save(out_file, "WEBP", **save_kwargs)
  else:
      img.save(out_file)
  \<close>
\<close>

definition save_page :: "image \<Rightarrow> path \<Rightarrow> string \<Rightarrow> int \<Rightarrow> world \<Rightarrow> error option \<times> world" where
  "save_page img out_file fmt quality w =
     (if fmt = ''jpg'' then
        save img out_file (Some ''JPEG'') [Quality quality, Optimize True, Progressive True] w
      else if fmt = ''png'' then
        save img out_file (Some ''PNG'') [Optimize True] w
      else if fmt = ''webp'' then
        save img out_file (Some ''WEBP'') [Quality quality, Method 6] w
      else save img out_file None [] w)"

text \<open>Line 133: \<^verbatim>\<open>out_file = out_dir / f"{out_base}.{fmt}"\<close>\<close>

definition out_file_of :: "externals \<Rightarrow> path \<Rightarrow> string \<Rightarrow> string \<Rightarrow> path" where
  "out_file_of ext out out_base fmt = joinpath ext out (out_base @ ''.'' @ fmt)"

text \<open>
  Lines 106 to 107 and 122 to 124, the rasterizer adapter: the zoom is \<^verbatim>\<open>dpi / 72.0\<close>,
  the mode follows the alpha flag of the pixmap.
  \<^verbatim>\<open>
  pix = page.get_pixmap(matrix=mat, alpha=True)
  mode = "RGBA" if pix.alpha else "RGB"
  img = Image.frombytes(mode, (pix.width, pix.height), pix.samples)
  \<close>
\<close>

definition page_image :: "page \<Rightarrow> int \<Rightarrow> image" where
  "page_image page dpi =
     (let pix = page (of_int dpi / 72);
          m = (if pix_alpha pix then ''RGBA'' else ''RGB'')
      in frombytes m (pix_width pix, pix_height pix) (samples pix))"

subsection \<open>Request validation\<close>

text \<open>\<^verbatim>\<open>str.lower\<close> on the ASCII letters; the characters of a \<open>string\<close> are bytes.\<close>

definition lower_char :: "char \<Rightarrow> char" where
  "lower_char c =
     (case map_of (zip ''ABCDEFGHIJKLMNOPQRSTUVWXYZ'' ''abcdefghijklmnopqrstuvwxyz'') c of
        Some l \<Rightarrow> l
      | None \<Rightarrow> c)"

definition lower :: "string \<Rightarrow> string" where
  "lower s = map lower_char s"

definition VALID_FORMATS :: "string set" where
  "VALID_FORMATS = {''jpg'', ''jpeg'', ''png'', ''webp''}"

text \<open>The parameters of \<^verbatim>\<open>pdf_to_images\<close>; \<open>end_page\<close> is the parameter \<^verbatim>\<open>end\<close>.\<close>

record request =
  pdf_path :: pathlike
  out_dir :: "pathlike option"
  dpi :: int
  quality :: int
  start :: "int option"
  end_page :: "int option"
  fmt :: string
  overwrite :: bool
  filename_template :: string
  password :: "string option"
  grayscale :: bool
  max_dim :: "int option"

text \<open>
  Lines 86 to 98. The function rebinds \<^verbatim>\<open>fmt\<close>; \<^verbatim>\<open>int(dpi)\<close> and \<^verbatim>\<open>int(quality)\<close> are the
  identity on the integers the signature declares.
  \<^verbatim>\<open>
  fmt = fmt.lower()
  if fmt == "jpeg":
      fmt = "jpg"
  if fmt not in VALID_FORMATS:
      raise ValueError(f"Unsupported format '{fmt}'. ...")
  dpi = int(dpi)
  if dpi <= 0:
      raise ValueError("dpi must be > 0.")
  if fmt in {"jpg", "webp"}:
      quality = int(quality)
      if not (1 <= quality <= 100):
          raise ValueError("quality must be in [1, 100].")
  \<close>
\<close>

definition normalize_fmt :: "string \<Rightarrow> string" where
  "normalize_fmt f = (let f1 = lower f in if f1 = ''jpeg'' then ''jpg'' else f1)"

definition validate_args :: "request \<Rightarrow> error + request" where
  "validate_args req =
     (let f = normalize_fmt (fmt req)
      in if f \<notin> VALID_FORMATS then Inl (UnsupportedFormat f)
         else if dpi req \<le> 0 then Inl DpiNotPositive
         else if f \<in> {''jpg'', ''webp''} \<and> \<not> (1 \<le> quality req \<and> quality req \<le> 100)
           then Inl QualityOutOfRange
         else Inr (req\<lparr>fmt := f\<rparr>))"

subsection \<open>The conversion\<close>

text \<open>
  Lines 121 to 150, one iteration of the loop over the pages, on the validated request.
  The result is the exception raised, if any, and the world after the iteration;
  \<^verbatim>\<open>continue\<close> ends the iteration without one.
\<close>

definition export_page ::
  "externals \<Rightarrow> request \<Rightarrow> path \<Rightarrow> path \<Rightarrow> document \<Rightarrow> int \<Rightarrow> world \<Rightarrow> error option \<times> world" where
  "export_page ext req pdf out doc i w =
     (case getitem doc i of
        Inl e \<Rightarrow> (Some e, w)
      | Inr page \<Rightarrow>
          let img = page_image page (dpi req);
              w1 = w\<lparr>trace := trace w @ [Rasterized i]\<rparr>
          in case transform_chain (other_conversions ext) (fmt req) (grayscale req)
                    (max_dim req) img of
               Inl e \<Rightarrow> (Some e, w1)
             | Inr img' \<Rightarrow>
                 (case str_format ext (filename_template req) (stem ext pdf) (i + 1) of
                    None \<Rightarrow> (Some TemplateError, w1)
                  | Some out_base \<Rightarrow>
                      let out_file = out_file_of ext out out_base (fmt req)
                      in if exists_path (fs w1) out_file \<and> \<not> overwrite req then (None, w1)
                         else save_page img' out_file (fmt req) (quality req) w1))"

text \<open>\<^verbatim>\<open>for i in range(first, last + 1)\<close>: the first exception ends the loop.\<close>

fun export_pages ::
  "externals \<Rightarrow> request \<Rightarrow> path \<Rightarrow> path \<Rightarrow> document \<Rightarrow> int list \<Rightarrow> world \<Rightarrow> error option \<times> world" where
  "export_pages ext req pdf out doc [] w = (None, w)"
| "export_pages ext req pdf out doc (i # rest) w =
     (case export_page ext req pdf out doc i w of
        (Some e, w') \<Rightarrow> (Some e, w')
      | (None, w') \<Rightarrow> export_pages ext req pdf out doc rest w')"

text \<open>
  Lines 110 to 150, the body of \<^verbatim>\<open>with fitz.open(pdf_path) as doc\<close>:
  \<^verbatim>\<open>
  if doc.needs_pass:
      if not password:
          raise PermissionError("PDF is encrypted. Provide --password.")
      if not doc.authenticate(password):
          raise PermissionError("Incorrect PDF password.")
  first, last = _validate_range(start, end, len(doc))
  for i in range(first, last + 1): ...
  \<close>
\<close>

definition convert_document ::
  "externals \<Rightarrow> request \<Rightarrow> path \<Rightarrow> path \<Rightarrow> document \<Rightarrow> world \<Rightarrow> error option \<times> world" where
  "convert_document ext req pdf out doc w =
     (let r = (if needs_pass doc then
                 (case password req of
                    None \<Rightarrow> (Some EncryptedNoPassword, w)
                  | Some pw \<Rightarrow>
                      if \<not> truthy_str (Some pw) then (Some EncryptedNoPassword, w)
                      else if \<not> authenticate doc pw
                        then (Some IncorrectPassword, w\<lparr>trace := trace w @ [Authenticate pw]\<rparr>)
                      else (None, w\<lparr>trace := trace w @ [Authenticate pw]\<rparr>))
               else (None, w))
      in case r of
           (Some e, w1) \<Rightarrow> (Some e, w1)
         | (None, w1) \<Rightarrow>
             (case validate_range (start req) (end_page req) (int (length (pages doc))) of
                Inl e \<Rightarrow> (Some e, w1)
              | Inr (first_i, last_i) \<Rightarrow>
                  export_pages ext req pdf out doc [first_i..last_i] w1))"

text \<open>
  \<^verbatim>\<open>pdf_to_images\<close>: validation, the check that the input is a file, the output
  directory, then the document, which the \<^verbatim>\<open>with\<close> statement closes on every way out of
  its body. The progress bar of \<^verbatim>\<open>tqdm\<close> changes nothing and is left out.
  \<^verbatim>\<open>
  pdf_path = Path(pdf_path)
  if not pdf_path.is_file():
      raise FileNotFoundError(f"PDF not found: {pdf_path}")
  out_dir = _ensure_outdir(pdf_path, Path(out_dir) if out_dir else None)
  with fitz.open(pdf_path) as doc: ...
  return out_dir
  \<close>
  \<open>outdir_arg\<close> is the argument \<^verbatim>\<open>Path(out_dir) if out_dir else None\<close>.
\<close>

definition outdir_arg :: "externals \<Rightarrow> pathlike option \<Rightarrow> path option" where
  "outdir_arg ext od = (if truthy_pathlike od then map_option (as_path ext) od else None)"

definition pdf_to_images :: "externals \<Rightarrow> request \<Rightarrow> world \<Rightarrow> (error + path) \<times> world" where
  "pdf_to_images ext req w =
     (case validate_args req of
        Inl e \<Rightarrow> (Inl e, w)
      | Inr req' \<Rightarrow>
          let pdf = as_path ext (pdf_path req')
          in if \<not> is_file (fs w) pdf then (Inl PdfNotFound, w)
             else
               (case ensure_outdir ext pdf (outdir_arg ext (out_dir req')) w of
                  (Inl e, w1) \<Rightarrow> (Inl e, w1)
                | (Inr out, w1) \<Rightarrow>
                    (case fitz_open pdf w1 of
                       (Inl e, w2) \<Rightarrow> (Inl e, w2)
                     | (Inr doc, w2) \<Rightarrow>
                         (case convert_document ext req' pdf out doc w2 of
                            (Some e, w3) \<Rightarrow> (Inl e, w3\<lparr>trace := trace w3 @ [Closed pdf]\<rparr>)
                          | (None, w3) \<Rightarrow> (Inr out, w3\<lparr>trace := trace w3 @ [Closed pdf]\<rparr>)))))"

text \<open>
  The exceptions of a run that come after the output directory and before the page loop:
  the document cannot be opened, the password is missing or wrong, the range is invalid.
\<close>

fun raised_before_pages :: "error \<Rightarrow> bool" where
  "raised_before_pages CannotOpenDocument = True"
| "raised_before_pages EncryptedNoPassword = True"
| "raised_before_pages IncorrectPassword = True"
| "raised_before_pages (InvalidRange _ _ _) = True"
| "raised_before_pages _ = False"

subsection \<open>A small world for the examples\<close>

text \<open>
  An instance of the external functions, exact on what the examples use: names without a
  separator, file names with one suffix, and the template \<^verbatim>\<open>{stem}\<close>. Its converter table
  has every entry that \<open>has_conversion\<close> leaves open.
\<close>

definition sample_ext :: externals where
  "sample_ext =
     \<lparr>path_of_str = (\<lambda>s. [s]),
      with_suffix = (\<lambda>p s. if p = [] then None
                           else Some (butlast p @ [takeWhile (\<lambda>c. c \<noteq> CHR ''.'') (last p) @ s])),
      stem = (\<lambda>p. takeWhile (\<lambda>c. c \<noteq> CHR ''.'') (last p)),
      str_format = (\<lambda>t st pg. if t = ''{stem}'' then Some st else None),
      other_conversions = (\<lambda>src dst. True)\<rparr>"

definition sample_page :: page where
  "sample_page = (\<lambda>zoom. \<lparr>pix_alpha = True, pix_width = 1, pix_height = 1,
                           samples = [10, 20, 30, 128]\<rparr>)"

definition open_doc :: document where
  "open_doc = \<lparr>needs_pass = False, authenticate = (\<lambda>pw. True), pages = [sample_page]\<rparr>"

definition locked_doc :: document where
  "locked_doc =
     \<lparr>needs_pass = True, authenticate = (\<lambda>pw. pw = ''secret''), pages = [sample_page]\<rparr>"

text \<open>The defaults of the signature of \<^verbatim>\<open>pdf_to_images\<close>, with the template \<^verbatim>\<open>{stem}\<close>.\<close>

definition sample_request :: request where
  "sample_request =
     \<lparr>pdf_path = Str ''a.pdf'', out_dir = None, dpi = 200, quality = 90,
      start = None, end_page = None, fmt = ''jpg'', overwrite = True,
      filename_template = ''{stem}'', password = None, grayscale = False,
      max_dim = None\<rparr>"

text \<open>
  A working directory that holds the PDF file \<^verbatim>\<open>a.pdf\<close> and a text file \<^verbatim>\<open>notes.txt\<close>.
\<close>

definition sample_world :: "document \<Rightarrow> world" where
  "sample_world doc =
     \<lparr>fs = [[] \<mapsto> Dir, [''a.pdf''] \<mapsto> File (Pdf doc), [''notes.txt''] \<mapsto> File (Data [104, 105])],
      trace = []\<rparr>"

text \<open>
  The same directory after a first run with the default output directory and the format
  \<open>jpg\<close>: the directory \<^verbatim>\<open>a\<close> holds a file \<^verbatim>\<open>a.jpg\<close>.
\<close>

definition rerun_world :: world where
  "rerun_world =
     \<lparr>fs = [[] \<mapsto> Dir, [''a.pdf''] \<mapsto> File (Pdf open_doc), [''a''] \<mapsto> Dir,
            [''a'', ''a.jpg''] \<mapsto> File (Data [1, 2, 3])],
      trace = []\<rparr>"

section \<open>Properties\<close>

subsection \<open>Range resolver\<close>

lemma validate_range_code:
  "validate_range s e n =
     (if spec_first s > code_last e n then Inl (InvalidRange s e n)
      else Inr (spec_first s, code_last e n))"
  by (cases s; cases e) (simp_all add: validate_range_def spec_first_def code_last_def Let_def)

text \<open>
  C1, as the code has it. The lower bound is \<open>0\<close> for an absent start and
  \<open>max 0 (start - 1)\<close> for a present one; the upper bound is \<open>n - 1\<close> for an absent end
  and also for \<open>end = 0\<close>, and \<open>min (n - 1) (end - 1)\<close> for every other end. The call
  raises the \<open>ValueError\<close> carrying both raw inputs and the page count exactly when the
  lower bound exceeds the upper one, and every returned pair satisfies
  \<open>0 \<le> first \<le> last \<le> n - 1\<close>.
\<close>

theorem validate_range_resolves:
  "validate_range s e n =
     (if spec_first s > code_last e n then Inl (InvalidRange s e n)
      else Inr (spec_first s, code_last e n))
   \<and> error_class (InvalidRange s e n) = ValueError
   \<and> (\<forall>f l. validate_range s e n = Inr (f, l) \<longrightarrow> 0 \<le> f \<and> f \<le> l \<and> l \<le> n - 1)"
proof -
  have lo: "0 \<le> spec_first s"
    by (cases s) (simp_all add: spec_first_def)
  have hi: "code_last e n \<le> n - 1"
    by (cases e) (auto simp: code_last_def)
  show ?thesis
    using lo hi by (auto simp: validate_range_code split: if_splits)
qed

theorem validate_range_resolves_witness:
  "validate_range (Some 2) (Some 9) 5 = Inr (1, 4) \<and> (0::int) \<le> 1 \<and> (1::int) \<le> 4 \<and> (4::int) \<le> 5 - 1"
  using validate_range_resolves [of "Some 2" "Some 9" 5]
  by (simp add: spec_first_def code_last_def)

text \<open>
  C1 as the specification states it fails for \<open>end = 0\<close>: the specification's resolver
  clamps the upper bound to \<open>-1\<close> and fails, the code returns the whole document.
\<close>

theorem validate_range_end_zero_counterexample:
  "validate_range None (Some 0) 5 = Inr (0, 4)
   \<and> spec_resolve_range None (Some 0) 5 = Inl (InvalidRange None (Some 0) 5)
   \<and> validate_range None (Some 0) 5 \<noteq> spec_resolve_range None (Some 0) 5"
  by (simp add: validate_range_def spec_resolve_range_def spec_first_def spec_last_def)

text \<open>
  C8. For a document of at least one page, \<open>end = 0\<close> resolves like an absent end: the
  call succeeds with the same pair in both cases, the upper bound of that pair is
  \<open>n - 1\<close>, and with an absent start the whole document \<open>(0, n - 1)\<close> is returned.
\<close>

theorem validate_range_end_zero:
  assumes "1 \<le> n"
  shows "validate_range None (Some 0) n = Inr (0, n - 1)
     \<and> (validate_range s (Some 0) n = Inr (f, l) \<longleftrightarrow> validate_range s None n = Inr (f, l))
     \<and> (validate_range s (Some 0) n = Inr (f, l) \<longrightarrow> l = n - 1)"
  using assms
  by (cases s) (auto simp: validate_range_def Let_def split: if_splits)

theorem validate_range_end_zero_witness:
  "(1::int) \<le> 3 \<and> validate_range None (Some 0) 3 = Inr (0, 3 - 1)
     \<and> validate_range (Some 2) (Some 0) 3 = Inr (1, 2)
     \<and> validate_range (Some 2) None 3 = Inr (1, 2)
     \<and> (2::int) = 3 - 1"
  using validate_range_end_zero [of 3 "Some 2" 1 2]
  by (simp add: validate_range_def)

subsection \<open>Image transform chain\<close>





lemma thumbnail_mode: "thumbnail img box = Inr r \<Longrightarrow> mode r = mode img"
  unfolding thumbnail_def Let_def
  by (auto simp: resize_def split: sum.splits if_splits)

lemma maybe_downscale_mode: "maybe_downscale img md = Inr r \<Longrightarrow> mode r = mode img"
  by (auto simp: maybe_downscale_def split: option.splits if_splits dest: thumbnail_mode)

lemma flatten_rgba:
  "mode img = ''RGBA'' \<Longrightarrow>
     flatten_to_rgb other img =
       Inr \<lparr>mode = ''RGB'', width = width img, height = height img,
            pixels = Converted ''RGB'' (Composite (Solid [255, 255, 255, 255]) (pixels img))\<rparr>"
  by (simp add: flatten_to_rgb_def convert_def has_conversion_def alpha_composite_def
      image_new_def Let_def)

lemma flatten_rgb: "mode img = ''RGB'' \<Longrightarrow> flatten_to_rgb other img = Inr img"
  by (simp add: flatten_to_rgb_def)

lemma flatten_other:
  "mode img \<noteq> ''RGBA'' \<Longrightarrow> mode img \<noteq> ''RGB'' \<Longrightarrow>
     flatten_to_rgb other img =
       (if has_conversion other (mode img) ''RGB''
        then Inr (img\<lparr>mode := ''RGB'', pixels := Converted ''RGB'' (pixels img)\<rparr>)
        else Inl NoConversion)"
  by (simp add: flatten_to_rgb_def convert_def)

text \<open>
  C10, as the code has it. The flatten step raises the \<open>ValueError\<close> of a missing conversion
  exactly when the image is neither in \<open>RGBA\<close> nor in \<open>RGB\<close> mode and Pillow has no
  conversion from its mode to \<open>RGB\<close>. In every other case, so for every \<open>RGBA\<close> and every
  \<open>RGB\<close> image, it returns an image in \<open>RGB\<close> mode. An image already in \<open>RGB\<close> mode is
  returned as it is, so flattening the result of a flatten returns that result: where
  flattening once returns, flattening twice equals flattening once.
\<close>

theorem flatten_to_rgb_idempotent:
  "(flatten_to_rgb other img = Inl NoConversion
      \<longleftrightarrow> mode img \<noteq> ''RGBA'' \<and> mode img \<noteq> ''RGB''
           \<and> \<not> has_conversion other (mode img) ''RGB'')
   \<and> (flatten_to_rgb other img = Inl NoConversion
        \<or> (\<exists>r. flatten_to_rgb other img = Inr r \<and> mode r = ''RGB''
                 \<and> flatten_to_rgb other r = Inr r))
   \<and> (mode img = ''RGBA'' \<longrightarrow> (\<exists>r. flatten_to_rgb other img = Inr r))
   \<and> (mode img = ''RGB'' \<longrightarrow> flatten_to_rgb other img = Inr img)"
proof (cases "mode img = ''RGBA''")
  case True
  then show ?thesis by (simp add: flatten_rgba flatten_rgb)
next
  case False
  note nrgba = False
  show ?thesis
  proof (cases "mode img = ''RGB''")
    case True
    then show ?thesis by (simp add: flatten_rgb)
  next
    case False
    then show ?thesis using nrgba by (simp add: flatten_other flatten_rgb)
  qed
qed

theorem flatten_to_rgb_idempotent_witness:
  "mode (frombytes ''RGB'' (2, 1) [1, 2, 3, 4, 5, 6]) = ''RGB''
   \<and> flatten_to_rgb (\<lambda>src dst. False) (frombytes ''RGB'' (2, 1) [1, 2, 3, 4, 5, 6])
       = Inr (frombytes ''RGB'' (2, 1) [1, 2, 3, 4, 5, 6])
   \<and> mode (frombytes ''RGBA'' (1, 1) [10, 20, 30, 128]) = ''RGBA''
   \<and> (\<exists>r. flatten_to_rgb (\<lambda>src dst. False) (frombytes ''RGBA'' (1, 1) [10, 20, 30, 128]) = Inr r
          \<and> mode r = ''RGB'' \<and> flatten_to_rgb (\<lambda>src dst. False) r = Inr r)"
  using flatten_to_rgb_idempotent [of "\<lambda>src dst. False" "frombytes ''RGB'' (2, 1) [1, 2, 3, 4, 5, 6]"]
    flatten_to_rgb_idempotent [of "\<lambda>src dst. False" "frombytes ''RGBA'' (1, 1) [10, 20, 30, 128]"]
  by (auto simp: frombytes_def)

text \<open>
  C10 as the specification states it fails for an image in the premultiplied mode \<open>La\<close>:
  Pillow has no conversion from \<open>La\<close> to \<open>RGB\<close>, whatever the rest of its table, and the
  flatten step raises \<open>ValueError\<close> instead of returning an \<open>RGB\<close> image.
\<close>

theorem flatten_to_rgb_la_counterexample:
  "flatten_to_rgb (\<lambda>src dst. True) (frombytes ''La'' (1, 1) [7, 255]) = Inl NoConversion
   \<and> error_class NoConversion = ValueError"
  by (simp add: flatten_to_rgb_def convert_def has_conversion_def frombytes_def)

text \<open>
  C2. For an \<open>RGBA\<close> image and the target \<open>jpg\<close> or \<open>webp\<close> with grayscale requested, the
  chain hands to the downscale step the image obtained by compositing the source over an
  opaque white \<open>RGBA\<close> background of the same size, converting to \<open>RGB\<close> and then to \<open>L\<close>:
  flattening comes first, desaturation second, and neither raises. That image and every
  image the chain returns are in mode \<open>L\<close>, so without alpha channel.
\<close>

theorem transform_chain_flatten_then_grayscale:
  assumes "mode img = ''RGBA''" and "f = ''jpg'' \<or> f = ''webp''"
  shows "transform_chain other f True md img
           = maybe_downscale
               \<lparr>mode = ''L'', width = width img, height = height img,
                pixels = Converted ''L'' (Converted ''RGB''
                           (Composite (Solid [255, 255, 255, 255]) (pixels img)))\<rparr> md
     \<and> flatten_to_rgb other img
           = Inr \<lparr>mode = ''RGB'', width = width img, height = height img,
                  pixels = Converted ''RGB''
                             (Composite (Solid [255, 255, 255, 255]) (pixels img))\<rparr>
     \<and> maybe_grayscale other
            \<lparr>mode = ''RGB'', width = width img, height = height img,
             pixels = Converted ''RGB'' (Composite (Solid [255, 255, 255, 255]) (pixels img))\<rparr>
            True
           = Inr \<lparr>mode = ''L'', width = width img, height = height img,
                  pixels = Converted ''L'' (Converted ''RGB''
                             (Composite (Solid [255, 255, 255, 255]) (pixels img)))\<rparr>
     \<and> (\<forall>r. transform_chain other f True md img = Inr r \<longrightarrow> mode r = ''L'' \<and> mode r \<noteq> ''RGBA'')"
proof -
  let ?F = "\<lparr>mode = ''RGB'', width = width img, height = height img,
             pixels = Converted ''RGB'' (Composite (Solid [255, 255, 255, 255]) (pixels img))\<rparr>"
  let ?G = "\<lparr>mode = ''L'', width = width img, height = height img,
                pixels = Converted ''L'' (Converted ''RGB''
                           (Composite (Solid [255, 255, 255, 255]) (pixels img)))\<rparr>"
  have flat: "flatten_to_rgb other img = Inr ?F" using assms(1) by (rule flatten_rgba)
  have gray: "maybe_grayscale other ?F True = Inr ?G"
    by (simp add: maybe_grayscale_def convert_def has_conversion_def)
  have chain: "transform_chain other f True md img = maybe_downscale ?G md"
    using assms(2) flat gray by (auto simp: transform_chain_def)
  have "mode r = ''L''" if "transform_chain other f True md img = Inr r" for r
    using that chain maybe_downscale_mode [of ?G md r] by simp
  then show ?thesis using chain flat gray by simp
qed

theorem transform_chain_flatten_then_grayscale_witness:
  "mode (frombytes ''RGBA'' (1, 1) [10, 20, 30, 128]) = ''RGBA''
   \<and> transform_chain (\<lambda>src dst. False) ''jpg'' True None (frombytes ''RGBA'' (1, 1) [10, 20, 30, 128])
       = Inr \<lparr>mode = ''L'', width = 1, height = 1,
              pixels = Converted ''L'' (Converted ''RGB''
                         (Composite (Solid [255, 255, 255, 255]) (Samples [10, 20, 30, 128])))\<rparr>"
  using transform_chain_flatten_then_grayscale
    [of "frombytes ''RGBA'' (1, 1) [10, 20, 30, 128]" "''jpg''" "\<lambda>src dst. False" None]
  by (simp add: frombytes_def maybe_downscale_def)

subsection \<open>Python floats\<close>

















subsection \<open>Thumbnails\<close>














subsection \<open>Validation, files and the conversion loop\<close>


lemma normalize_fmt_jpg: "normalize_fmt ''jpg'' = ''jpg''"
  by (simp add: normalize_fmt_def lower_def lower_char_def)



lemma export_page_quality_png:
  "fmt r = ''png'' \<Longrightarrow>
     export_page ext (r\<lparr>quality := q\<rparr>) pdf out doc i w = export_page ext r pdf out doc i w"
  by (simp add: export_page_def save_page_def Let_def
      cong: sum.case_cong option.case_cong if_cong)

lemma export_pages_quality_png:
  "fmt r = ''png'' \<Longrightarrow>
     export_pages ext (r\<lparr>quality := q\<rparr>) pdf out doc is w = export_pages ext r pdf out doc is w"
  by (induction "is" arbitrary: w)
    (simp_all add: export_page_quality_png cong: prod.case_cong option.case_cong)

lemma convert_document_quality_png:
  "fmt r = ''png'' \<Longrightarrow>
     convert_document ext (r\<lparr>quality := q\<rparr>) pdf out doc w = convert_document ext r pdf out doc w"
  by (simp add: convert_document_def export_pages_quality_png Let_def
      cong: sum.case_cong option.case_cong prod.case_cong)

lemma validate_args_png:
  assumes "normalize_fmt (fmt req) = ''png''"
  shows "validate_args req = (if dpi req \<le> 0 then Inl DpiNotPositive else Inr (req\<lparr>fmt := ''png''\<rparr>))"
  using assms by (simp add: validate_args_def VALID_FORMATS_def Let_def)

lemma pdf_to_images_quality_png:
  assumes "normalize_fmt (fmt req) = ''png''"
  shows "pdf_to_images ext (req\<lparr>quality := q\<rparr>) w = pdf_to_images ext req w"
proof (cases "dpi req \<le> 0")
  case True
  then show ?thesis using assms by (simp add: pdf_to_images_def validate_args_png)
next
  case False
  have a: "validate_args req = Inr (req\<lparr>fmt := ''png''\<rparr>)"
    using assms False by (simp add: validate_args_png)
  have b: "validate_args (req\<lparr>quality := q\<rparr>) = Inr (req\<lparr>fmt := ''png'', quality := q\<rparr>)"
    using assms False by (simp add: validate_args_png)
  show ?thesis
    unfolding pdf_to_images_def a b
    by (simp add: convert_document_quality_png Let_def
        cong: sum.case_cong option.case_cong prod.case_cong if_cong)
qed

lemma validate_args_quality:
  assumes "normalize_fmt (fmt req) = ''jpg'' \<or> normalize_fmt (fmt req) = ''webp''"
    and "quality req < 1 \<or> 100 < quality req"
  shows "validate_args req = (if dpi req \<le> 0 then Inl DpiNotPositive else Inl QualityOutOfRange)"
  using assms by (auto simp: validate_args_def VALID_FORMATS_def Let_def)


lemma mkdir_result:
  "mkdir f p = Inr f' \<Longrightarrow>
     f' p = Some Dir \<and> (\<forall>q. f' q = f q \<or> (f q = None \<and> f' q = Some Dir))"
proof (induction f p arbitrary: f' rule: mkdir.induct)
  case (1 f p)
  have unf: "(case f p of
        Some Dir \<Rightarrow> Inr f
      | Some (File _) \<Rightarrow> Inl MkdirFileExists
      | None \<Rightarrow>
          if p = [] then Inl MkdirNoParent
          else (case f (butlast p) of
                  Some Dir \<Rightarrow> Inr (f(p \<mapsto> Dir))
                | Some (File _) \<Rightarrow> Inl MkdirNotADirectory
                | None \<Rightarrow>
                    (case mkdir f (butlast p) of
                       Inl e \<Rightarrow> Inl e
                     | Inr f' \<Rightarrow> Inr (f'(p \<mapsto> Dir))))) = Inr f'"
    using "1.prems" by (subst (asm) mkdir.simps)
  show ?case
  proof (cases "f p")
    case (Some e)
    then show ?thesis using unf by (cases e) simp_all
  next
    case None
    note fp = None
    show ?thesis
    proof (cases "p = []")
      case True
      then show ?thesis using unf fp by simp
    next
      case False
      show ?thesis
      proof (cases "f (butlast p)")
        case (Some e)
        then show ?thesis using unf fp False by (cases e) (auto split: if_splits)
      next
        case None
        then obtain g where g: "mkdir f (butlast p) = Inr g" and f': "f' = g(p \<mapsto> Dir)"
          using unf fp False by (auto split: sum.splits)
        have "\<forall>q. g q = f q \<or> (f q = None \<and> g q = Some Dir)"
          using "1.IH" [OF fp False None g] by simp
        then show ?thesis using f' fp by auto
      qed
    qed
  qed
qed

lemma mkdir_dir: "mkdir f p = Inr f' \<Longrightarrow> f' p = Some Dir"
  using mkdir_result by blast

lemma mkdir_files:
  "mkdir f p = Inr f' \<Longrightarrow> (f' q = Some (File c)) = (f q = Some (File c))"
  using mkdir_result [of f p f'] by (metis entry.distinct(1) option.distinct(1) option.inject)

lemma save_keeps_dir:
  "save img p fo opts w = (r, w') \<Longrightarrow> fs w q = Some Dir \<Longrightarrow> fs w' q = Some Dir"
  by (auto simp: save_def split: option.splits entry.splits)

lemma save_trace:
  "save img p fo opts w = (r, w') \<Longrightarrow> \<exists>t. trace w' = trace w @ t"
  by (auto simp: save_def split: option.splits entry.splits)

lemma save_page_keeps_dir:
  "save_page img p f q w = (r, w') \<Longrightarrow> fs w d = Some Dir \<Longrightarrow> fs w' d = Some Dir"
  by (auto simp: save_page_def split: if_splits dest: save_keeps_dir)

lemma save_page_trace:
  "save_page img p f q w = (r, w') \<Longrightarrow> \<exists>t. trace w' = trace w @ t"
  by (auto simp: save_page_def split: if_splits dest: save_trace)

lemma export_page_keeps_dir:
  assumes "export_page ext req pdf out doc i w = (r, w')" and "fs w d = Some Dir"
  shows "fs w' d = Some Dir"
  using assms
  by (auto simp: export_page_def Let_def split: sum.splits option.splits if_splits
      dest: save_page_keeps_dir)

lemma export_page_trace:
  assumes "export_page ext req pdf out doc i w = (r, w')"
  shows "\<exists>t. trace w' = trace w @ t"
  using assms
  by (auto simp: export_page_def Let_def split: sum.splits option.splits if_splits
      dest!: save_page_trace)

lemma export_pages_keeps_dir:
  "export_pages ext req pdf out doc is w = (r, w') \<Longrightarrow> fs w d = Some Dir \<Longrightarrow> fs w' d = Some Dir"
proof (induction "is" arbitrary: w)
  case Nil
  then show ?case by simp
next
  case (Cons i rest)
  obtain r1 w1 where e: "export_page ext req pdf out doc i w = (r1, w1)" by fastforce
  then have d: "fs w1 d = Some Dir" using Cons.prems(2) by (rule export_page_keeps_dir)
  show ?case
  proof (cases r1)
    case None
    then show ?thesis using Cons.prems(1) e Cons.IH [OF _ d] by simp
  next
    case (Some a)
    then show ?thesis using Cons.prems(1) e d by simp
  qed
qed

lemma export_pages_trace:
  "export_pages ext req pdf out doc is w = (r, w') \<Longrightarrow> \<exists>t. trace w' = trace w @ t"
proof (induction "is" arbitrary: w)
  case Nil
  then show ?case by simp
next
  case (Cons i rest)
  obtain r1 w1 where e: "export_page ext req pdf out doc i w = (r1, w1)" by fastforce
  then obtain t1 where t1: "trace w1 = trace w @ t1" using export_page_trace by blast
  show ?case
  proof (cases r1)
    case None
    then have "export_pages ext req pdf out doc rest w1 = (r, w')" using Cons.prems e by simp
    then obtain t2 where "trace w' = trace w1 @ t2" using Cons.IH by blast
    then show ?thesis using t1 by simp
  next
    case (Some a)
    then show ?thesis using Cons.prems e t1 by simp
  qed
qed

lemma convert_document_keeps_dir:
  assumes "convert_document ext req pdf out doc w = (r, w')" and "fs w d = Some Dir"
  shows "fs w' d = Some Dir"
  using assms
  by (auto simp: convert_document_def Let_def split: if_splits option.splits sum.splits
      dest: export_pages_keeps_dir)

lemma convert_document_trace:
  assumes "convert_document ext req pdf out doc w = (r, w')"
  shows "\<exists>t. trace w' = trace w @ t"
  using assms
  by (auto simp: convert_document_def Let_def split: if_splits option.splits sum.splits
      dest!: export_pages_trace)

lemma validate_args_Inr:
  "validate_args req = Inr req' \<Longrightarrow> req' = req\<lparr>fmt := normalize_fmt (fmt req)\<rparr>"
  by (auto simp: validate_args_def Let_def split: if_splits)

lemma normalize_fmt_png: "normalize_fmt ''png'' = ''png''"
  by (simp add: normalize_fmt_def lower_def lower_char_def)



text \<open>
  C3. For the formats \<open>jpg\<close> and \<open>webp\<close> (in any spelling that normalizes to them), a
  quality below 1 or above 100 ends the run with a \<open>ValueError\<close> and the world as it was:
  nothing is opened, created or written. The error is the quality error whenever the DPI
  is valid. For \<open>png\<close>, validation accepts every quality value, and the whole run, result
  and files written, is the same for every quality value.
\<close>

theorem quality_validation:
  "((normalize_fmt (fmt req) = ''jpg'' \<or> normalize_fmt (fmt req) = ''webp'')
      \<and> (quality req < 1 \<or> 100 < quality req)
     \<longrightarrow> (\<exists>e. pdf_to_images ext req w = (Inl e, w) \<and> error_class e = ValueError
              \<and> (0 < dpi req \<longrightarrow> e = QualityOutOfRange)))
   \<and> (normalize_fmt (fmt req) = ''png''
     \<longrightarrow> (0 < dpi req \<longrightarrow> validate_args (req\<lparr>quality := q\<rparr>) = Inr (req\<lparr>quality := q, fmt := ''png''\<rparr>))
        \<and> pdf_to_images ext (req\<lparr>quality := q\<rparr>) w = pdf_to_images ext req w)"
proof (intro conjI impI)
  assume a: "(normalize_fmt (fmt req) = ''jpg'' \<or> normalize_fmt (fmt req) = ''webp'')
      \<and> (quality req < 1 \<or> 100 < quality req)"
  then have "validate_args req = (if dpi req \<le> 0 then Inl DpiNotPositive else Inl QualityOutOfRange)"
    by (simp add: validate_args_quality)
  then show "\<exists>e. pdf_to_images ext req w = (Inl e, w) \<and> error_class e = ValueError
              \<and> (0 < dpi req \<longrightarrow> e = QualityOutOfRange)"
    by (simp add: pdf_to_images_def)
next
  assume "normalize_fmt (fmt req) = ''png''" and "0 < dpi req"
  then show "validate_args (req\<lparr>quality := q\<rparr>) = Inr (req\<lparr>quality := q, fmt := ''png''\<rparr>)"
    by (simp add: validate_args_png)
next
  assume "normalize_fmt (fmt req) = ''png''"
  then show "pdf_to_images ext (req\<lparr>quality := q\<rparr>) w = pdf_to_images ext req w"
    by (rule pdf_to_images_quality_png)
qed

theorem quality_validation_witness:
  "normalize_fmt (fmt (sample_request\<lparr>quality := 150\<rparr>)) = ''jpg''
   \<and> 100 < quality (sample_request\<lparr>quality := 150\<rparr>)
   \<and> 0 < dpi (sample_request\<lparr>quality := 150\<rparr>)
   \<and> pdf_to_images sample_ext (sample_request\<lparr>quality := 150\<rparr>) (sample_world open_doc)
        = (Inl QualityOutOfRange, sample_world open_doc)
   \<and> normalize_fmt (fmt (sample_request\<lparr>fmt := ''png''\<rparr>)) = ''png''
   \<and> validate_args (sample_request\<lparr>fmt := ''png'', quality := 150\<rparr>)
        = Inr (sample_request\<lparr>fmt := ''png'', quality := 150\<rparr>)
   \<and> pdf_to_images sample_ext (sample_request\<lparr>fmt := ''png'', quality := 150\<rparr>) (sample_world open_doc)
        = pdf_to_images sample_ext (sample_request\<lparr>fmt := ''png''\<rparr>) (sample_world open_doc)"
  using quality_validation [of "sample_request\<lparr>quality := 150\<rparr>" sample_ext "sample_world open_doc"]
    quality_validation [of "sample_request\<lparr>fmt := ''png''\<rparr>" sample_ext "sample_world open_doc" 150]
  by (auto simp: normalize_fmt_jpg normalize_fmt_png sample_request_def)

subsection \<open>Runs that reach the document\<close>

lemma ensure_outdir_result:
  assumes "ensure_outdir ext pdf od w = (Inr out, w1)"
  shows "\<exists>f'. mkdir (fs w) out = Inr f' \<and> w1 = w\<lparr>fs := f', trace := trace w @ [MadeDir out]\<rparr>"
  using assms by (auto simp: ensure_outdir_def split: sum.splits)

lemma ensure_outdir_files:
  assumes "ensure_outdir ext pdf od w = (Inr out, w1)"
  shows "(fs w1 q = Some (File c)) = (fs w q = Some (File c))"
proof -
  obtain f' where m: "mkdir (fs w) out = Inr f'"
      and w1: "w1 = w\<lparr>fs := f', trace := trace w @ [MadeDir out]\<rparr>"
    using ensure_outdir_result [OF assms] by blast
  show ?thesis using mkdir_files [OF m, of q c] w1 by simp
qed

lemma ensure_outdir_dir:
  assumes "ensure_outdir ext pdf od w = (Inr out, w1)"
  shows "fs w1 out = Some Dir \<and> trace w1 = trace w @ [MadeDir out]"
proof -
  obtain f' where m: "mkdir (fs w) out = Inr f'"
      and w1: "w1 = w\<lparr>fs := f', trace := trace w @ [MadeDir out]\<rparr>"
    using ensure_outdir_result [OF assms] by blast
  show ?thesis using mkdir_dir [OF m] w1 by simp
qed

lemma pdf_to_images_opened:
  assumes v: "validate_args req = Inr req'"
    and f: "fs w (as_path ext (pdf_path req)) = Some (File (Pdf doc))"
    and o: "ensure_outdir ext (as_path ext (pdf_path req)) (outdir_arg ext (out_dir req)) w
              = (Inr out, w1)"
  shows "pdf_to_images ext req w =
     (case convert_document ext req' (as_path ext (pdf_path req)) out doc
             (w1\<lparr>trace := trace w1 @ [Opened (as_path ext (pdf_path req))]\<rparr>) of
        (Some e, w3) \<Rightarrow> (Inl e, w3\<lparr>trace := trace w3 @ [Closed (as_path ext (pdf_path req))]\<rparr>)
      | (None, w3) \<Rightarrow> (Inr out, w3\<lparr>trace := trace w3 @ [Closed (as_path ext (pdf_path req))]\<rparr>))"
proof -
  have r: "req' = req\<lparr>fmt := normalize_fmt (fmt req)\<rparr>" using v by (rule validate_args_Inr)
  have p: "pdf_path req' = pdf_path req" "out_dir req' = out_dir req" using r by simp_all
  have isf: "is_file (fs w) (as_path ext (pdf_path req))" using f by (simp add: is_file_def)
  have "fs w1 (as_path ext (pdf_path req)) = Some (File (Pdf doc))"
    using ensure_outdir_files [OF o] f by simp
  then have op: "fitz_open (as_path ext (pdf_path req)) w1
      = (Inr doc, w1\<lparr>trace := trace w1 @ [Opened (as_path ext (pdf_path req))]\<rparr>)"
    by (simp add: fitz_open_def)
  show ?thesis
    unfolding pdf_to_images_def v
    using isf o op by (simp add: p Let_def)
qed

lemma sample_validate:
  "validate_args (sample_request\<lparr>start := s, password := p\<rparr>)
     = Inr (sample_request\<lparr>start := s, password := p\<rparr>)"
  by (simp add: validate_args_def normalize_fmt_jpg VALID_FORMATS_def sample_request_def Let_def)

lemma sample_pdf_path: "as_path sample_ext (pdf_path (sample_request\<lparr>start := s, password := p\<rparr>)) = [''a.pdf'']"
  by (simp add: sample_request_def sample_ext_def)

lemma sample_pdf_path0: "as_path sample_ext (pdf_path sample_request) = [''a.pdf'']"
  by (simp add: sample_request_def sample_ext_def)

lemma sample_file: "fs (sample_world doc) [''a.pdf''] = Some (File (Pdf doc))"
  by (simp add: sample_world_def)

lemma sample_outdir:
  "ensure_outdir sample_ext [''a.pdf''] (outdir_arg sample_ext None) (sample_world doc)
     = (Inr [''a''], (sample_world doc)\<lparr>fs := (fs (sample_world doc))([''a''] \<mapsto> Dir),
                                            trace := [MadeDir [''a'']]\<rparr>)"
  by (simp add: ensure_outdir_def resolve_outdir_def outdir_arg_def sample_ext_def
      sample_world_def mkdir.simps)

text \<open>
  C4. Take a run that reaches the document: the request validates, the input is a PDF file,
  the output directory step succeeds (it only adds the event \<open>MadeDir\<close> and leaves every
  file as it was), and the document is password-protected. Without a password (absent or
  empty) the run ends with the error "encrypted, no password", with a password that
  authentication rejects it ends with the distinct error "incorrect password"; both are
  of class \<open>PermissionError\<close>. In both cases the world after the run is the one after the
  directory step plus the events of opening, of the one authentication attempt and of
  closing: no page is rasterized and no file is written. The statement holds for every
  page range of the request, also an invalid one: the range is not yet looked at.
\<close>

theorem encrypted_document_needs_password:
  assumes v: "validate_args req = Inr req'"
    and f: "fs w (as_path ext (pdf_path req)) = Some (File (Pdf doc))"
    and o: "ensure_outdir ext (as_path ext (pdf_path req)) (outdir_arg ext (out_dir req)) w
              = (Inr out, w1)"
    and n: "needs_pass doc"
  shows "(\<not> truthy_str (password req) \<longrightarrow>
            pdf_to_images ext req w =
              (Inl EncryptedNoPassword,
               w1\<lparr>trace := trace w1 @ [Opened (as_path ext (pdf_path req)),
                                        Closed (as_path ext (pdf_path req))]\<rparr>))
     \<and> (\<forall>pw. password req = Some pw \<and> pw \<noteq> [] \<and> \<not> authenticate doc pw \<longrightarrow>
            pdf_to_images ext req w =
              (Inl IncorrectPassword,
               w1\<lparr>trace := trace w1 @ [Opened (as_path ext (pdf_path req)), Authenticate pw,
                                        Closed (as_path ext (pdf_path req))]\<rparr>))
     \<and> error_class EncryptedNoPassword = PermissionError
     \<and> error_class IncorrectPassword = PermissionError
     \<and> EncryptedNoPassword \<noteq> IncorrectPassword
     \<and> trace w1 = trace w @ [MadeDir out]
     \<and> (\<forall>q c. (fs w1 q = Some (File c)) = (fs w q = Some (File c)))"
proof -
  have r: "req' = req\<lparr>fmt := normalize_fmt (fmt req)\<rparr>" using v by (rule validate_args_Inr)
  have pw: "password req' = password req" using r by simp
  note run = pdf_to_images_opened [OF v f o]
  have a: "pdf_to_images ext req w =
              (Inl EncryptedNoPassword,
               w1\<lparr>trace := trace w1 @ [Opened (as_path ext (pdf_path req)),
                                        Closed (as_path ext (pdf_path req))]\<rparr>)"
    if "\<not> truthy_str (password req)"
    using that n unfolding run
    by (cases "password req") (simp_all add: convert_document_def pw)
  have b: "pdf_to_images ext req w =
              (Inl IncorrectPassword,
               w1\<lparr>trace := trace w1 @ [Opened (as_path ext (pdf_path req)), Authenticate p,
                                        Closed (as_path ext (pdf_path req))]\<rparr>)"
    if "password req = Some p \<and> p \<noteq> [] \<and> \<not> authenticate doc p" for p
    using that n unfolding run
    by (simp add: convert_document_def pw)
  show ?thesis
    using a b ensure_outdir_dir [OF o] ensure_outdir_files [OF o] by simp
qed


theorem encrypted_document_needs_password_witness:
  "validate_args (sample_request\<lparr>start := Some 5, password := None\<rparr>)
     = Inr (sample_request\<lparr>start := Some 5, password := None\<rparr>)
   \<and> fs (sample_world locked_doc) [''a.pdf''] = Some (File (Pdf locked_doc))
   \<and> needs_pass locked_doc
   \<and> pdf_to_images sample_ext (sample_request\<lparr>start := Some 5, password := None\<rparr>)
        (sample_world locked_doc)
      = (Inl EncryptedNoPassword,
         \<lparr>fs = (fs (sample_world locked_doc))([''a''] \<mapsto> Dir),
          trace = [MadeDir [''a''], Opened [''a.pdf''], Closed [''a.pdf'']]\<rparr>)
   \<and> pdf_to_images sample_ext (sample_request\<lparr>start := Some 5, password := Some ''guess''\<rparr>)
        (sample_world locked_doc)
      = (Inl IncorrectPassword,
         \<lparr>fs = (fs (sample_world locked_doc))([''a''] \<mapsto> Dir),
          trace = [MadeDir [''a''], Opened [''a.pdf''], Authenticate ''guess'',
                   Closed [''a.pdf'']]\<rparr>)"
proof -
  have n: "needs_pass locked_doc" by (simp add: locked_doc_def)
  have od: "out_dir (sample_request\<lparr>start := Some 5, password := p\<rparr>) = None" for p
    by (simp add: sample_request_def)
  have o: "ensure_outdir sample_ext
             (as_path sample_ext (pdf_path (sample_request\<lparr>start := Some 5, password := p\<rparr>)))
             (outdir_arg sample_ext (out_dir (sample_request\<lparr>start := Some 5, password := p\<rparr>)))
             (sample_world locked_doc)
     = (Inr [''a''], (sample_world locked_doc)\<lparr>fs := (fs (sample_world locked_doc))([''a''] \<mapsto> Dir),
                                            trace := [MadeDir [''a'']]\<rparr>)" for p
    unfolding sample_pdf_path od by (rule sample_outdir)
  have f: "fs (sample_world locked_doc)
             (as_path sample_ext (pdf_path (sample_request\<lparr>start := Some 5, password := p\<rparr>)))
           = Some (File (Pdf locked_doc))" for p
    unfolding sample_pdf_path by (rule sample_file)
  have a: "\<not> authenticate locked_doc ''guess''" by (simp add: locked_doc_def)
  show ?thesis
    using encrypted_document_needs_password [OF sample_validate f o n, of None]
      encrypted_document_needs_password [OF sample_validate f o n, of "Some ''guess''"]
      a n
    by (simp add: sample_validate sample_file sample_pdf_path0 sample_world_def)
qed

subsection \<open>Writer\<close>

lemma save_result:
  "save img p fo opts w = (None, w') \<Longrightarrow>
     w' = w\<lparr>fs := (fs w)(p \<mapsto> File (Encoded fo img opts)), trace := trace w @ [Saved p]\<rparr>"
  by (auto simp: save_def split: option.splits entry.splits)

lemma save_file:
  "fs w p = Some (File old) \<Longrightarrow> fs w (butlast p) = Some Dir \<Longrightarrow>
     save img p fo opts w =
       (None, w\<lparr>fs := (fs w)(p \<mapsto> File (Encoded fo img opts)), trace := trace w @ [Saved p]\<rparr>)"
  by (simp add: save_def)

lemma sample_getitem: "getitem open_doc 0 = Inr sample_page"
  by (simp add: getitem_def open_doc_def)

lemma sample_transform:
  "transform_chain (other_conversions sample_ext) (fmt (sample_request\<lparr>overwrite := b\<rparr>))
      (grayscale (sample_request\<lparr>overwrite := b\<rparr>))
      (max_dim (sample_request\<lparr>overwrite := b\<rparr>))
      (page_image sample_page (dpi (sample_request\<lparr>overwrite := b\<rparr>)))
     = Inr \<lparr>mode = ''RGB'', width = 1, height = 1,
              pixels = Converted ''RGB'' (Composite (Solid [255, 255, 255, 255])
                         (Samples [10, 20, 30, 128]))\<rparr>"
  by (simp add: sample_request_def transform_chain_def flatten_to_rgb_def maybe_grayscale_def
      maybe_downscale_def page_image_def sample_page_def frombytes_def image_new_def
      alpha_composite_def convert_def has_conversion_def Let_def)

lemma sample_name:
  "str_format sample_ext (filename_template (sample_request\<lparr>overwrite := b\<rparr>))
      (stem sample_ext [''a.pdf'']) (0 + 1) = Some ''a''"
  by (simp add: sample_request_def sample_ext_def)

lemma sample_out_file:
  "out_file_of sample_ext [''a''] ''a'' (fmt (sample_request\<lparr>overwrite := b\<rparr>)) = [''a'', ''a.jpg'']"
  by (simp add: out_file_of_def joinpath_def sample_ext_def sample_request_def)

lemma sample_out_file0:
  "out_file_of sample_ext [''a''] ''a'' (fmt sample_request) = [''a'', ''a.jpg'']"
  by (simp add: out_file_of_def joinpath_def sample_ext_def sample_request_def)

lemma rerun_file: "fs rerun_world [''a'', ''a.jpg''] = Some (File (Data [1, 2, 3]))"
  by (simp add: rerun_world_def)

lemma rerun_dir: "fs rerun_world [''a''] = Some Dir"
  by (simp add: rerun_world_def)

text \<open>
  C5. Take an iteration of the page loop that reaches the writer: the page is rasterized
  and transformed, the file name is formed, and the output path exists. With overwrite
  disabled the iteration ends without exception and without touching the file system (only
  the rasterization is recorded), and the loop goes on with the remaining pages. With
  overwrite enabled and the path an existing file, the iteration ends without exception
  and the file holds the newly encoded image in place of its old content.
\<close>

theorem overwrite_policy:
  assumes pg: "getitem doc i = Inr page"
    and tr: "transform_chain (other_conversions ext) (fmt req) (grayscale req) (max_dim req)
               (page_image page (dpi req)) = Inr img"
    and nm: "str_format ext (filename_template req) (stem ext pdf) (i + 1) = Some base"
    and ex: "fs w (out_file_of ext out base (fmt req)) = Some e"
  shows "(\<not> overwrite req \<longrightarrow>
            export_page ext req pdf out doc i w = (None, w\<lparr>trace := trace w @ [Rasterized i]\<rparr>)
          \<and> export_pages ext req pdf out doc (i # rest) w
              = export_pages ext req pdf out doc rest (w\<lparr>trace := trace w @ [Rasterized i]\<rparr>))
     \<and> (overwrite req \<and> (\<exists>old. e = File old)
          \<and> fs w (butlast (out_file_of ext out base (fmt req))) = Some Dir \<longrightarrow>
            (\<exists>fo opts.
               export_page ext req pdf out doc i w =
                 (None, w\<lparr>fs := (fs w)(out_file_of ext out base (fmt req)
                                         \<mapsto> File (Encoded fo img opts)),
                           trace := trace w @ [Rasterized i,
                                               Saved (out_file_of ext out base (fmt req))]\<rparr>)))"
proof (intro conjI impI)
  assume no: "\<not> overwrite req"
  show skip: "export_page ext req pdf out doc i w = (None, w\<lparr>trace := trace w @ [Rasterized i]\<rparr>)"
    using pg tr nm ex no by (simp add: export_page_def Let_def exists_path_def)
  show "export_pages ext req pdf out doc (i # rest) w
          = export_pages ext req pdf out doc rest (w\<lparr>trace := trace w @ [Rasterized i]\<rparr>)"
    by (simp add: skip)
next
  let ?f = "out_file_of ext out base (fmt req)"
  let ?w1 = "w\<lparr>trace := trace w @ [Rasterized i]\<rparr>"
  assume a: "overwrite req \<and> (\<exists>old. e = File old) \<and> fs w (butlast ?f) = Some Dir"
  then obtain old where old: "fs ?w1 ?f = Some (File old)" and par: "fs ?w1 (butlast ?f) = Some Dir"
    using ex by auto
  have run: "export_page ext req pdf out doc i w = save_page img ?f (fmt req) (quality req) ?w1"
    using pg tr nm a by (simp add: export_page_def Let_def)
  have "\<exists>fo opts. save_page img ?f (fmt req) (quality req) ?w1 = save img ?f fo opts ?w1"
    by (auto simp: save_page_def)
  then obtain fo opts where
    "export_page ext req pdf out doc i w = save img ?f fo opts ?w1"
    using run by auto
  then have "export_page ext req pdf out doc i w =
       (None, ?w1\<lparr>fs := (fs ?w1)(?f \<mapsto> File (Encoded fo img opts)),
                  trace := trace ?w1 @ [Saved ?f]\<rparr>)"
    using save_file [OF old par, of img fo opts] by simp
  then show "\<exists>fo opts.
               export_page ext req pdf out doc i w =
                 (None, w\<lparr>fs := (fs w)(?f \<mapsto> File (Encoded fo img opts)),
                           trace := trace w @ [Rasterized i, Saved ?f]\<rparr>)"
    by auto
qed


theorem overwrite_policy_witness:
  "getitem open_doc 0 = Inr sample_page
   \<and> fs rerun_world [''a'', ''a.jpg''] = Some (File (Data [1, 2, 3]))
   \<and> \<not> overwrite (sample_request\<lparr>overwrite := False\<rparr>)
   \<and> export_page sample_ext (sample_request\<lparr>overwrite := False\<rparr>) [''a.pdf''] [''a''] open_doc 0
        rerun_world
      = (None, rerun_world\<lparr>trace := [Rasterized 0]\<rparr>)
   \<and> overwrite (sample_request\<lparr>overwrite := True\<rparr>)
   \<and> (\<exists>fo opts.
        export_page sample_ext (sample_request\<lparr>overwrite := True\<rparr>) [''a.pdf''] [''a''] open_doc 0
          rerun_world
        = (None, rerun_world\<lparr>fs := (fs rerun_world)([''a'', ''a.jpg''] \<mapsto>
                     File (Encoded fo
                       \<lparr>mode = ''RGB'', width = 1, height = 1,
                        pixels = Converted ''RGB'' (Composite (Solid [255, 255, 255, 255])
                                   (Samples [10, 20, 30, 128]))\<rparr> opts)),
                   trace := [Rasterized 0, Saved [''a'', ''a.jpg'']]\<rparr>))"
proof -
  have ex: "fs rerun_world (out_file_of sample_ext [''a''] ''a'' (fmt (sample_request\<lparr>overwrite := b\<rparr>)))
              = Some (File (Data [1, 2, 3]))" for b
    unfolding sample_out_file by (rule rerun_file)
  have t: "trace rerun_world = []" by (simp add: rerun_world_def)
  show ?thesis
    using overwrite_policy [OF sample_getitem sample_transform sample_name ex, of False "[]"]
      overwrite_policy [OF sample_getitem sample_transform sample_name ex, of True "[]"]
    by (simp add: sample_getitem rerun_file rerun_dir sample_out_file0 t)
qed

subsection \<open>Output directory\<close>

lemma finite_float_error: "finite_float v = Inl e \<Longrightarrow> e = FloatOverflow"
  by (simp add: finite_float_def split: if_splits)

lemma int_truediv_error: "int_truediv a b = Inl e \<Longrightarrow> e = AspectDivisionByZero \<or> e = FloatOverflow"
  by (auto simp: int_truediv_def split: if_splits dest: finite_float_error)

lemma to_float_error: "to_float k = Inl e \<Longrightarrow> e = FloatOverflow"
  by (simp add: to_float_def finite_float_error)

lemma resize_error: "resize img sz = Inl e \<Longrightarrow> e = ResizeBadSize"
  by (simp add: resize_def split: if_splits)

lemma thumbnail_errors:
  assumes "thumbnail img box = Inl e"
  shows "e = AspectDivisionByZero \<or> e = FloatOverflow \<or> e = ResizeBadSize"
  using assms unfolding thumbnail_def Let_def
  by (auto split: sum.splits if_splits
      dest: int_truediv_error to_float_error finite_float_error resize_error)

lemma thumbnail_error: "thumbnail img box = Inl e \<Longrightarrow> \<not> raised_before_pages e"
  using thumbnail_errors [of img box e] by auto

lemma maybe_downscale_error:
  "maybe_downscale img md = Inl e \<Longrightarrow> \<not> raised_before_pages e"
  by (auto simp: maybe_downscale_def split: option.splits if_splits dest: thumbnail_error)

lemma convert_error: "convert other img m = Inl e \<Longrightarrow> \<not> raised_before_pages e"
  by (auto simp: convert_def split: if_splits)

lemma transform_chain_error:
  "transform_chain other f g md img = Inl e \<Longrightarrow> \<not> raised_before_pages e"
  by (auto simp: transform_chain_def flatten_to_rgb_def maybe_grayscale_def Let_def
      split: sum.splits if_splits dest: convert_error maybe_downscale_error)

lemma save_error: "save img p fo opts w = (Some e, w') \<Longrightarrow> \<not> raised_before_pages e"
  by (auto simp: save_def split: option.splits entry.splits)

lemma save_page_error: "save_page img p f q w = (Some e, w') \<Longrightarrow> \<not> raised_before_pages e"
  by (auto simp: save_page_def split: if_splits dest: save_error)

lemma export_page_error:
  "export_page ext req pdf out doc i w = (Some e, w') \<Longrightarrow> \<not> raised_before_pages e"
  by (auto simp: export_page_def getitem_def Let_def
      split: sum.splits option.splits if_splits
      dest: save_page_error transform_chain_error)

lemma export_pages_error:
  "export_pages ext req pdf out doc is w = (Some e, w') \<Longrightarrow> \<not> raised_before_pages e"
proof (induction "is" arbitrary: w)
  case Nil
  then show ?case by simp
next
  case (Cons i rest)
  obtain r1 w1 where p: "export_page ext req pdf out doc i w = (r1, w1)" by fastforce
  show ?case
  proof (cases r1)
    case None
    then show ?thesis using Cons.prems p Cons.IH [of w1] by simp
  next
    case (Some a)
    then show ?thesis using Cons.prems p export_page_error [of ext req pdf out doc i w a w1] by simp
  qed
qed

lemma convert_document_early:
  assumes "convert_document ext req pdf out doc w = (Some e, w')" and "raised_before_pages e"
  shows "fs w' = fs w"
  using assms
  by (auto simp: convert_document_def Let_def split: if_splits option.splits sum.splits
      dest: export_pages_error)

lemma sample_locked_run:
  "pdf_to_images sample_ext (sample_request\<lparr>start := Some 5, password := None\<rparr>)
        (sample_world locked_doc)
      = (Inl EncryptedNoPassword,
         \<lparr>fs = (fs (sample_world locked_doc))([''a''] \<mapsto> Dir),
          trace = [MadeDir [''a''], Opened [''a.pdf''], Closed [''a.pdf'']]\<rparr>)"
proof -
  have od: "out_dir (sample_request\<lparr>start := Some 5, password := None\<rparr>) = None"
    by (simp add: sample_request_def)
  have o: "ensure_outdir sample_ext
             (as_path sample_ext (pdf_path (sample_request\<lparr>start := Some 5, password := None\<rparr>)))
             (outdir_arg sample_ext (out_dir (sample_request\<lparr>start := Some 5, password := None\<rparr>)))
             (sample_world locked_doc)
     = (Inr [''a''], (sample_world locked_doc)\<lparr>fs := (fs (sample_world locked_doc))([''a''] \<mapsto> Dir),
                                            trace := [MadeDir [''a'']]\<rparr>)"
    unfolding sample_pdf_path od by (rule sample_outdir)
  have f: "fs (sample_world locked_doc)
             (as_path sample_ext (pdf_path (sample_request\<lparr>start := Some 5, password := None\<rparr>)))
           = Some (File (Pdf locked_doc))"
    unfolding sample_pdf_path by (rule sample_file)
  show ?thesis
    unfolding pdf_to_images_opened [OF sample_validate f o]
    by (simp add: convert_document_def locked_doc_def sample_pdf_path0 sample_world_def)
qed

text \<open>
  C9, as the code has it. Take a run whose request validates, whose input is a file and
  whose output directory step succeeds. Whatever the run then returns, the output
  directory exists after it, and its creation is the first event of the run, so it comes
  before the document is opened. If the run fails before the page loop (the document
  cannot be opened, the password is missing or wrong, the page range is invalid), the file
  system is the one the directory step left: no file was written or changed.
\<close>

theorem outdir_created_before_open:
  assumes v: "validate_args req = Inr req'"
    and f: "is_file (fs w) (as_path ext (pdf_path req))"
    and o: "ensure_outdir ext (as_path ext (pdf_path req)) (outdir_arg ext (out_dir req)) w
              = (Inr out, w1)"
    and run: "pdf_to_images ext req w = (r, w')"
  shows "fs w' out = Some Dir
     \<and> (\<exists>t. trace w' = trace w @ MadeDir out # t)
     \<and> (\<forall>e. r = Inl e \<and> raised_before_pages e \<longrightarrow>
            fs w' = fs w1 \<and> (\<forall>q c. (fs w' q = Some (File c)) = (fs w q = Some (File c))))"
proof -
  let ?pdf = "as_path ext (pdf_path req)"
  have rq: "req' = req\<lparr>fmt := normalize_fmt (fmt req)\<rparr>" using v by (rule validate_args_Inr)
  have p: "pdf_path req' = pdf_path req" "out_dir req' = out_dir req" using rq by simp_all
  have d1: "fs w1 out = Some Dir" and t1: "trace w1 = trace w @ [MadeDir out]"
    using ensure_outdir_dir [OF o] by simp_all
  have files: "(fs w1 q = Some (File c)) = (fs w q = Some (File c))" for q c
    by (rule ensure_outdir_files [OF o])
  show ?thesis
  proof (cases "\<exists>doc. fs w1 ?pdf = Some (File (Pdf doc))")
    case False
    then have "fitz_open ?pdf w1 = (Inl CannotOpenDocument, w1)"
      by (auto simp: fitz_open_def split: option.splits entry.splits content.splits)
    then have "pdf_to_images ext req w = (Inl CannotOpenDocument, w1)"
      unfolding pdf_to_images_def v using f o by (simp add: p Let_def)
    then have "w' = w1" using run by simp
    then show ?thesis using d1 t1 files by simp
  next
    case True
    then obtain doc where "fs w1 ?pdf = Some (File (Pdf doc))" by blast
    then have fw: "fs w ?pdf = Some (File (Pdf doc))" using files by simp
    let ?w2 = "w1\<lparr>trace := trace w1 @ [Opened ?pdf]\<rparr>"
    obtain r3 w3 where c: "convert_document ext req' ?pdf out doc ?w2 = (r3, w3)" by fastforce
    have d3: "fs w3 out = Some Dir"
      using convert_document_keeps_dir [OF c] d1 by simp
    obtain t where t3: "trace w3 = trace ?w2 @ t" using convert_document_trace [OF c] by blast
    have res: "(r, w') = (case r3 of Some e \<Rightarrow> Inl e | None \<Rightarrow> Inr out,
                          w3\<lparr>trace := trace w3 @ [Closed ?pdf]\<rparr>)"
      using pdf_to_images_opened [OF v fw o] c run by (cases r3) simp_all
    have early: "fs w' = fs w1" if "r = Inl e" "raised_before_pages e" for e
    proof -
      have "r3 = Some e" using res that(1) by (cases r3) simp_all
      then have "fs w3 = fs ?w2" using convert_document_early [of ext req' ?pdf out doc ?w2 e w3] c that(2)
        by simp
      then show ?thesis using res by simp
    qed
    have "fs w' out = Some Dir" using res d3 by simp
    moreover have "trace w' = trace w @ MadeDir out # (Opened ?pdf # t @ [Closed ?pdf])"
      using res t3 t1 by simp
    ultimately show ?thesis using early files by auto
  qed
qed


theorem outdir_created_before_open_witness:
  "validate_args (sample_request\<lparr>start := Some 5, password := None\<rparr>)
     = Inr (sample_request\<lparr>start := Some 5, password := None\<rparr>)
   \<and> is_file (fs (sample_world locked_doc)) [''a.pdf'']
   \<and> ensure_outdir sample_ext [''a.pdf''] (outdir_arg sample_ext None) (sample_world locked_doc)
     = (Inr [''a''], (sample_world locked_doc)\<lparr>fs := (fs (sample_world locked_doc))([''a''] \<mapsto> Dir),
                                            trace := [MadeDir [''a'']]\<rparr>)
   \<and> pdf_to_images sample_ext (sample_request\<lparr>start := Some 5, password := None\<rparr>)
        (sample_world locked_doc)
      = (Inl EncryptedNoPassword,
         \<lparr>fs = (fs (sample_world locked_doc))([''a''] \<mapsto> Dir),
          trace = [MadeDir [''a''], Opened [''a.pdf''], Closed [''a.pdf'']]\<rparr>)
   \<and> raised_before_pages EncryptedNoPassword
   \<and> ((fs (sample_world locked_doc))([''a''] \<mapsto> Dir)) [''a''] = Some Dir"
proof -
  have od: "out_dir (sample_request\<lparr>start := Some 5, password := None\<rparr>) = None"
    by (simp add: sample_request_def)
  have o: "ensure_outdir sample_ext
             (as_path sample_ext (pdf_path (sample_request\<lparr>start := Some 5, password := None\<rparr>)))
             (outdir_arg sample_ext (out_dir (sample_request\<lparr>start := Some 5, password := None\<rparr>)))
             (sample_world locked_doc)
     = (Inr [''a''], (sample_world locked_doc)\<lparr>fs := (fs (sample_world locked_doc))([''a''] \<mapsto> Dir),
                                            trace := [MadeDir [''a'']]\<rparr>)"
    unfolding sample_pdf_path od by (rule sample_outdir)
  have f: "is_file (fs (sample_world locked_doc))
             (as_path sample_ext (pdf_path (sample_request\<lparr>start := Some 5, password := None\<rparr>)))"
    unfolding sample_pdf_path by (simp add: is_file_def sample_file)
  show ?thesis
    using outdir_created_before_open [OF sample_validate f o sample_locked_run]
    by (simp add: sample_validate sample_outdir sample_locked_run is_file_def sample_file)
qed

text \<open>
  C9 as the specification states it fails for a run that passes input validation and
  fails in the directory step itself: with the output directory given as the existing
  file \<^verbatim>\<open>notes.txt\<close>, \<^verbatim>\<open>mkdir\<close> raises \<open>FileExistsError\<close> and no directory of that name
  exists after the run.
\<close>

theorem outdir_missing_after_mkdir_failure_counterexample:
  "validate_args (sample_request\<lparr>out_dir := Some (Str ''notes.txt'')\<rparr>)
     = Inr (sample_request\<lparr>out_dir := Some (Str ''notes.txt'')\<rparr>)
   \<and> is_file (fs (sample_world open_doc)) [''a.pdf'']
   \<and> resolve_outdir sample_ext [''a.pdf'']
        (outdir_arg sample_ext (out_dir (sample_request\<lparr>out_dir := Some (Str ''notes.txt'')\<rparr>)))
      = Inr [''notes.txt'']
   \<and> pdf_to_images sample_ext (sample_request\<lparr>out_dir := Some (Str ''notes.txt'')\<rparr>)
        (sample_world open_doc)
      = (Inl MkdirFileExists, sample_world open_doc)
   \<and> error_class MkdirFileExists = FileExistsError
   \<and> fs (sample_world open_doc) [''notes.txt''] \<noteq> Some Dir"
  by (simp add: pdf_to_images_def validate_args_def normalize_fmt_jpg VALID_FORMATS_def
      sample_request_def sample_ext_def sample_world_def is_file_def ensure_outdir_def
      resolve_outdir_def outdir_arg_def mkdir.simps Let_def)

end
